theory Spec2Isabelle
  imports Complex_Main "HOL-Library.Multiset"
begin

section \<open>Data model (app/models/drawing.py)\<close>

text \<open>
  The pydantic models become records and the two string enums become datatypes.
  Python floats are modelled by the reals: rounding of IEEE doubles is not part of the
  model.  Record fields keep the names of the source; where two models share a field
  name (or the name would shadow a variable) the field carries a prefix.
\<close>

datatype ToolType = PEN | ERASER | SHAPE | TEXT

datatype ShapeType = RECTANGLE | CIRCLE | TRIANGLE | LINE | ARROW

text \<open>The \<open>.value\<close> of a \<open>ShapeType\<close> member.\<close>

fun shape_value :: "ShapeType \<Rightarrow> string" where
  "shape_value RECTANGLE = ''rectangle''"
| "shape_value CIRCLE = ''circle''"
| "shape_value TRIANGLE = ''triangle''"
| "shape_value LINE = ''line''"
| "shape_value ARROW = ''arrow''"

record DrawingPoint =
  point_x :: real
  point_y :: real
  pressure :: "real option"

record DrawingStroke =
  points :: "DrawingPoint list"
  color :: string
  width :: real
  tool :: ToolType
  shape_type :: "ShapeType option"

record DrawingData =
  strokes :: "DrawingStroke list"
  canvas_width :: int
  canvas_height :: int
  background_color :: string
  timestamp :: "string option"

text \<open>The \<open>heatmap_data\<close> dictionary, with its keys \<open>width\<close>, \<open>height\<close>, \<open>data\<close>.\<close>

record heatmap =
  hm_width :: int
  hm_height :: int
  hm_data :: "int list list"

record CanvasAnalytics =
  total_strokes :: int
  active_users :: int
  drawing_time :: real
  heatmap_data :: heatmap
  shape_count :: "string \<rightharpoonup> int"
  color_usage :: "string \<rightharpoonup> int"

section \<open>Settings (app/core/config.py)\<close>

definition DEFAULT_CANVAS_WIDTH :: int where
  "DEFAULT_CANVAS_WIDTH = 1920"

definition DEFAULT_CANVAS_HEIGHT :: int where
  "DEFAULT_CANVAS_HEIGHT = 1080"

section \<open>The canvas service (app/services/canvas_service.py)\<close>

text \<open>
  A room is the dictionary that \<open>create_room\<close> stores, one field per key.
\<close>

record room =
  room_id :: string
  room_name :: string
  room_created_at :: string
  room_active_users :: int
  room_canvas_width :: int
  room_canvas_height :: int

text \<open>The three dictionaries of \<open>CanvasService\<close>, keyed by room identifier.\<close>

record CanvasService =
  rooms :: "string \<rightharpoonup> room"
  canvas_data :: "string \<rightharpoonup> DrawingData"
  analytics :: "string \<rightharpoonup> CanvasAnalytics"

text \<open>The state after \<open>__init__\<close>.\<close>

definition init_service :: CanvasService where
  "init_service = \<lparr>rooms = Map.empty, canvas_data = Map.empty, analytics = Map.empty\<rparr>"

text \<open>
  The exceptions of the services.  The source raises plain \<open>Exception\<close>s told apart by
  their message; \<open>RoomNotFound\<close> is \<open>Exception("Room not found")\<close> and \<open>CanvasNotFound\<close>
  is \<open>Exception("Canvas not found")\<close>: the two NotFound failures of the specification.
\<close>

datatype error =
    RoomNotFound
  | CanvasNotFound
  | ZeroDivisionError
  | IndexError
  | DecodeError
  | ShapeDetectionFailed error
  | OCRFailed error

text \<open>\<open>DrawingData(canvas_width=..., canvas_height=...)\<close>: every other field at its default.\<close>

definition empty_canvas :: DrawingData where
  "empty_canvas = \<lparr>strokes = [], canvas_width = DEFAULT_CANVAS_WIDTH,
     canvas_height = DEFAULT_CANVAS_HEIGHT, background_color = ''#ffffff'',
     timestamp = None\<rparr>"

text \<open>
  \<open>create_room\<close>.  The fresh \<open>uuid4\<close> string and the reading of the clock are inputs of
  the model (\<open>new_id\<close>, \<open>now\<close>); the function returns the identifier with the new state.
\<close>

definition create_room :: "CanvasService \<Rightarrow> string \<Rightarrow> string \<Rightarrow> string \<Rightarrow> string \<times> CanvasService" where
  "create_room s name new_id now =
     (new_id,
      s\<lparr>rooms := (rooms s)(new_id \<mapsto>
           \<lparr>room_id = new_id, room_name = name, room_created_at = now,
            room_active_users = 0, room_canvas_width = DEFAULT_CANVAS_WIDTH,
            room_canvas_height = DEFAULT_CANVAS_HEIGHT\<rparr>),
        canvas_data := (canvas_data s)(new_id \<mapsto> empty_canvas)\<rparr>)"

definition get_room_info :: "CanvasService \<Rightarrow> string \<Rightarrow> error + room" where
  "get_room_info s rid =
     (case rooms s rid of None \<Rightarrow> Inl RoomNotFound | Some r \<Rightarrow> Inr r)"

definition get_canvas :: "CanvasService \<Rightarrow> string \<Rightarrow> error + DrawingData" where
  "get_canvas s rid =
     (case canvas_data s rid of None \<Rightarrow> Inl CanvasNotFound | Some d \<Rightarrow> Inr d)"

text \<open>The heatmap literal \<open>{'width': 1920, 'height': 1080, 'data': []}\<close>.\<close>

definition default_heatmap :: heatmap where
  "default_heatmap = \<lparr>hm_width = 1920, hm_height = 1080, hm_data = []\<rparr>"

text \<open>The record that \<open>get_room_analytics\<close> returns for a room without analytics.\<close>

definition mock_analytics :: CanvasAnalytics where
  "mock_analytics = \<lparr>total_strokes = 0, active_users = 0, drawing_time = 0,
     heatmap_data = default_heatmap, shape_count = Map.empty, color_usage = Map.empty\<rparr>"

definition get_room_analytics :: "CanvasService \<Rightarrow> string \<Rightarrow> CanvasAnalytics" where
  "get_room_analytics s rid =
     (case analytics s rid of None \<Rightarrow> mock_analytics | Some a \<Rightarrow> a)"

text \<open>The record that \<open>_update_room_analytics\<close> stores first for a room without analytics.\<close>

definition fresh_analytics :: CanvasAnalytics where
  "fresh_analytics = \<lparr>total_strokes = 0, active_users = 1, drawing_time = 0,
     heatmap_data = default_heatmap, shape_count = Map.empty, color_usage = Map.empty\<rparr>"

text \<open>\<open>d.get(k, 0)\<close> on a dictionary of counts.\<close>

definition get0 :: "(string \<rightharpoonup> int) \<Rightarrow> string \<Rightarrow> int" where
  "get0 d k = (case d k of None \<Rightarrow> 0 | Some n \<Rightarrow> n)"

text \<open>The first loop of \<open>_update_room_analytics\<close>, over the strokes.\<close>

fun count_colors :: "(string \<rightharpoonup> int) \<Rightarrow> DrawingStroke list \<Rightarrow> (string \<rightharpoonup> int)" where
  "count_colors cu [] = cu"
| "count_colors cu (stroke # rest) =
     count_colors (cu(color stroke \<mapsto> get0 cu (color stroke) + 1)) rest"

text \<open>
  The second loop.  \<open>if stroke.shape_type\<close> is false for \<open>None\<close> and true for every
  member of \<open>ShapeType\<close> (a string enum whose values are all non-empty).
\<close>

fun count_shapes :: "(string \<rightharpoonup> int) \<Rightarrow> DrawingStroke list \<Rightarrow> (string \<rightharpoonup> int)" where
  "count_shapes sc [] = sc"
| "count_shapes sc (stroke # rest) =
     (case shape_type stroke of
        None \<Rightarrow> count_shapes sc rest
      | Some st \<Rightarrow>
          count_shapes (sc(shape_value st \<mapsto> get0 sc (shape_value st) + 1)) rest)"

text \<open>The literal \<open>0.1\<close> ("0.1 seconds per stroke").\<close>

definition seconds_per_stroke :: real where
  "seconds_per_stroke = 1 / 10"

definition update_room_analytics :: "CanvasService \<Rightarrow> string \<Rightarrow> DrawingData \<Rightarrow> CanvasService" where
  "update_room_analytics s rid drawing_data =
     (let a0 = (case analytics s rid of None \<Rightarrow> fresh_analytics | Some a \<Rightarrow> a);
          a1 = a0\<lparr>total_strokes := int (length (strokes drawing_data))\<rparr>;
          a2 = a1\<lparr>color_usage := count_colors Map.empty (strokes drawing_data)\<rparr>;
          a3 = a2\<lparr>shape_count := count_shapes Map.empty (strokes drawing_data)\<rparr>;
          a4 = a3\<lparr>drawing_time := real (length (strokes drawing_data)) * seconds_per_stroke\<rparr>
      in s\<lparr>analytics := (analytics s)(rid \<mapsto> a4)\<rparr>)"

text \<open>
  \<open>save_canvas\<close>, \<open>join_room\<close>: operations that may raise return their outcome together
  with the state the service is left in, so that the state after a failure is visible.
\<close>

definition save_canvas :: "CanvasService \<Rightarrow> string \<Rightarrow> DrawingData \<Rightarrow> (error + unit) \<times> CanvasService" where
  "save_canvas s rid drawing_data =
     (case rooms s rid of
        None \<Rightarrow> (Inl RoomNotFound, s)
      | Some _ \<Rightarrow>
          (Inr (),
           update_room_analytics
             (s\<lparr>canvas_data := (canvas_data s)(rid \<mapsto> drawing_data)\<rparr>) rid drawing_data))"

definition join_room :: "CanvasService \<Rightarrow> string \<Rightarrow> string \<Rightarrow> (error + unit) \<times> CanvasService" where
  "join_room s rid user_id =
     (case rooms s rid of
        None \<Rightarrow> (Inl RoomNotFound, s)
      | Some r \<Rightarrow>
          (Inr (),
           s\<lparr>rooms := (rooms s)(rid \<mapsto> r\<lparr>room_active_users := room_active_users r + 1\<rparr>)\<rparr>))"

definition leave_room :: "CanvasService \<Rightarrow> string \<Rightarrow> string \<Rightarrow> CanvasService" where
  "leave_room s rid user_id =
     (case rooms s rid of
        None \<Rightarrow> s
      | Some r \<Rightarrow>
          s\<lparr>rooms := (rooms s)(rid \<mapsto>
               r\<lparr>room_active_users := max 0 (room_active_users r - 1)\<rparr>)\<rparr>)"

text \<open>\<open>delete_room\<close>: three guarded \<open>del\<close> statements, one per dictionary.\<close>

definition delete_room :: "CanvasService \<Rightarrow> string \<Rightarrow> CanvasService" where
  "delete_room s rid =
     (let s1 = (case rooms s rid of None \<Rightarrow> s
                | Some _ \<Rightarrow> s\<lparr>rooms := (rooms s)(rid := None)\<rparr>);
          s2 = (case canvas_data s1 rid of None \<Rightarrow> s1
                | Some _ \<Rightarrow> s1\<lparr>canvas_data := (canvas_data s1)(rid := None)\<rparr>);
          s3 = (case analytics s2 rid of None \<Rightarrow> s2
                | Some _ \<Rightarrow> s2\<lparr>analytics := (analytics s2)(rid := None)\<rparr>)
      in s3)"

text \<open>
  The states the service can be in: those reached from \<open>__init__\<close> by its public
  operations.  \<open>create_room\<close> is allowed any identifier, so every statement about
  reachable states holds in particular when identifiers are fresh.
\<close>

inductive reachable :: "CanvasService \<Rightarrow> bool" where
  r_init: "reachable init_service"
| r_create: "reachable s \<Longrightarrow> reachable (snd (create_room s name new_id now))"
| r_save: "reachable s \<Longrightarrow> reachable (snd (save_canvas s rid d))"
| r_join: "reachable s \<Longrightarrow> reachable (snd (join_room s rid user_id))"
| r_leave: "reachable s \<Longrightarrow> reachable (leave_room s rid user_id)"
| r_delete: "reachable s \<Longrightarrow> reachable (delete_room s rid)"

text \<open>
  The shape kinds of the strokes that have one, in stroke order, by their \<open>.value\<close>:
  the sequence whose multiset the shape tally is compared with.
\<close>

definition shape_names :: "DrawingStroke list \<Rightarrow> string list" where
  "shape_names xs = map shape_value (List.map_filter shape_type xs)"

text \<open>
  What a save leaves as the analytics of a room in a reachable state, as a function of
  the saved document alone.
\<close>

definition analytics_of_document :: "DrawingData \<Rightarrow> CanvasAnalytics" where
  "analytics_of_document d =
     \<lparr>total_strokes = int (length (strokes d)), active_users = 1,
      drawing_time = real (length (strokes d)) * seconds_per_stroke,
      heatmap_data = default_heatmap,
      shape_count = count_shapes Map.empty (strokes d),
      color_usage = count_colors Map.empty (strokes d)\<rparr>"

section \<open>The AI service (app/services/ai_service.py)\<close>

text \<open>
  OpenCV, PIL and Tesseract are libraries outside the repository.  A contour is what
  \<open>_classify_shape\<close> reads of it: its length and the results of \<open>cv2.boundingRect\<close>,
  \<open>cv2.contourArea\<close> and \<open>cv2.arcLength(contour, True)\<close>.
\<close>

record contour =
  n_points :: nat
  rect_x :: int
  rect_y :: int
  rect_w :: int
  rect_h :: int
  contour_area :: real
  arc_length :: real

text \<open>The dictionary \<open>_classify_shape\<close> returns, with its keys \<open>type\<close>, \<open>confidence\<close>,
  \<open>vertices\<close>, \<open>area\<close>.\<close>

record shape_info =
  shape_kind :: string
  shape_confidence :: real
  shape_vertices :: nat
  shape_area :: real

text \<open>
  \<open>4 * np.pi * area / (perimeter * perimeter) if perimeter > 0 else 0\<close>.
\<close>

definition circularity :: "real \<Rightarrow> real \<Rightarrow> real" where
  "circularity area perimeter =
     (if perimeter > 0 then 4 * pi * area / (perimeter * perimeter) else 0)"

text \<open>The final \<open>return\<close> of \<open>_classify_shape\<close>.\<close>

definition unknown_shape :: "contour \<Rightarrow> shape_info" where
  "unknown_shape c = \<lparr>shape_kind = ''unknown'', shape_confidence = 5 / 10,
     shape_vertices = n_points c, shape_area = contour_area c\<rparr>"

text \<open>
  \<open>_classify_shape\<close>.  \<open>float(w) / h\<close> raises \<open>ZeroDivisionError\<close> for \<open>h = 0\<close>.
\<close>

definition classify_shape :: "contour \<Rightarrow> error + shape_info" where
  "classify_shape c =
     (let vertices = n_points c in
      if vertices = 3 then
        Inr \<lparr>shape_kind = ''triangle'', shape_confidence = 9 / 10,
             shape_vertices = vertices, shape_area = contour_area c\<rparr>
      else if vertices = 4 then
        (if rect_h c = 0 then Inl ZeroDivisionError
         else
           let aspect_ratio = real_of_int (rect_w c) / real_of_int (rect_h c) in
           if 8 / 10 \<le> aspect_ratio \<and> aspect_ratio \<le> 12 / 10 then
             Inr \<lparr>shape_kind = ''square'', shape_confidence = 85 / 100,
                  shape_vertices = vertices, shape_area = contour_area c\<rparr>
           else
             Inr \<lparr>shape_kind = ''rectangle'', shape_confidence = 8 / 10,
                  shape_vertices = vertices, shape_area = contour_area c\<rparr>)
      else if vertices > 8 then
        (let area = contour_area c;
             perimeter = arc_length c;
             circ = circularity area perimeter in
         if circ > 8 / 10 then
           Inr \<lparr>shape_kind = ''circle'', shape_confidence = circ,
                shape_vertices = vertices, shape_area = area\<rparr>
         else Inr (unknown_shape c))
      else Inr (unknown_shape c))"

record ShapeDetectionResult =
  sd_shapes :: "shape_info list"
  sd_confidence :: real
  sd_processing_time :: real

text \<open>The loop of \<open>detect_shapes\<close> over the contours; \<open>shapes\<close> is the list built so far.\<close>

fun classify_contours :: "real \<Rightarrow> contour list \<Rightarrow> shape_info list \<Rightarrow> error + shape_info list" where
  "classify_contours confidence_threshold [] shapes = Inr shapes"
| "classify_contours confidence_threshold (c # cs) shapes =
     (case classify_shape c of
        Inl e \<Rightarrow> Inl e
      | Inr info \<Rightarrow>
          classify_contours confidence_threshold cs
            (if shape_confidence info \<ge> confidence_threshold then shapes @ [info] else shapes))"

text \<open>The default of the parameter \<open>confidence_threshold\<close> of \<open>detect_shapes\<close>.\<close>

definition default_confidence_threshold :: real where
  "default_confidence_threshold = 7 / 10"

text \<open>
  \<open>detect_shapes\<close>.  Decoding the image and extracting and approximating its contours
  (base64, PIL, OpenCV) is the parameter \<open>find_contours\<close>; the two readings of the clock
  are \<open>start_time\<close> and \<open>end_time\<close>.  Every exception is wrapped into
  \<open>Exception("Shape detection failed: ...")\<close>.
\<close>

definition detect_shapes ::
  "(string \<Rightarrow> error + contour list) \<Rightarrow> real \<Rightarrow> real \<Rightarrow> string \<Rightarrow> real \<Rightarrow> error + ShapeDetectionResult" where
  "detect_shapes find_contours start_time end_time img confidence_threshold =
     (case find_contours img of
        Inl e \<Rightarrow> Inl (ShapeDetectionFailed e)
      | Inr contours \<Rightarrow>
          (case classify_contours confidence_threshold contours [] of
             Inl e \<Rightarrow> Inl (ShapeDetectionFailed e)
           | Inr shapes \<Rightarrow>
               Inr \<lparr>sd_shapes = shapes,
                    sd_confidence =
                      (if shapes \<noteq> [] then
                         sum_list (map shape_confidence shapes) / real (length shapes)
                       else 0),
                    sd_processing_time = end_time - start_time\<rparr>))"

text \<open>
  The output of \<open>pytesseract.image_to_data(..., output_type=Output.DICT)\<close>: one list per
  column.  The entries of the \<open>conf\<close> column are integers, so that \<open>int(conf)\<close> is the
  entry itself.
\<close>

record tess_data =
  td_conf :: "int list"
  td_text :: "string list"
  td_left :: "int list"
  td_top :: "int list"
  td_width :: "int list"
  td_height :: "int list"

record bbox =
  bbox_x :: int
  bbox_y :: int
  bbox_width :: int
  bbox_height :: int

record bounding_box =
  bb_text :: string
  bb_confidence :: int
  bb_bbox :: bbox

record OCRResult =
  ocr_text :: string
  ocr_confidence :: real
  ocr_bounding_boxes :: "bounding_box list"
  ocr_processing_time :: real

text \<open>\<open>xs[i]\<close> for an index \<open>i \<ge> 0\<close>.\<close>

definition py_index :: "'a list \<Rightarrow> nat \<Rightarrow> error + 'a" where
  "py_index xs i = (if i < length xs then Inr (xs ! i) else Inl IndexError)"

text \<open>The dictionary appended for fragment \<open>i\<close>; its reads are done in source order.\<close>

definition make_box :: "tess_data \<Rightarrow> nat \<Rightarrow> int \<Rightarrow> error + bounding_box" where
  "make_box data i conf =
     (case py_index (td_text data) i of Inl e \<Rightarrow> Inl e | Inr t \<Rightarrow>
      case py_index (td_left data) i of Inl e \<Rightarrow> Inl e | Inr l \<Rightarrow>
      case py_index (td_top data) i of Inl e \<Rightarrow> Inl e | Inr tp \<Rightarrow>
      case py_index (td_width data) i of Inl e \<Rightarrow> Inl e | Inr w \<Rightarrow>
      case py_index (td_height data) i of Inl e \<Rightarrow> Inl e | Inr h \<Rightarrow>
        Inr \<lparr>bb_text = t, bb_confidence = conf,
             bb_bbox = \<lparr>bbox_x = l, bbox_y = tp, bbox_width = w, bbox_height = h\<rparr>\<rparr>)"

text \<open>
  The loop \<open>for i, conf in enumerate(data['conf'])\<close>: \<open>i\<close> is the index of the head of
  the remaining list, \<open>boxes\<close> the list built so far.
\<close>

fun collect_boxes :: "tess_data \<Rightarrow> nat \<Rightarrow> int list \<Rightarrow> bounding_box list \<Rightarrow> error + bounding_box list" where
  "collect_boxes data i [] boxes = Inr boxes"
| "collect_boxes data i (conf # rest) boxes =
     (if conf > 60 then
        (case make_box data i conf of
           Inl e \<Rightarrow> Inl e
         | Inr bb \<Rightarrow> collect_boxes data (Suc i) rest (boxes @ [bb]))
      else collect_boxes data (Suc i) rest boxes)"

text \<open>
  \<open>str.strip()\<close>, for text in ASCII: the characters that \<open>isspace\<close> accepts there are
  9 to 13 and 28 to 32.
\<close>

definition py_isspace :: "char \<Rightarrow> bool" where
  "py_isspace ch = (let n = (of_char ch :: nat) in (9 \<le> n \<and> n \<le> 13) \<or> (28 \<le> n \<and> n \<le> 32))"

definition py_strip :: "string \<Rightarrow> string" where
  "py_strip s = rev (dropWhile py_isspace (rev (dropWhile py_isspace s)))"

text \<open>
  The OCR engine behind \<open>perform_ocr\<close>: decoding and preprocessing the image followed by
  \<open>pytesseract.image_to_string\<close>, respectively \<open>pytesseract.image_to_data\<close>, as functions
  of the image data and the language.
\<close>

record ocr_engine =
  image_to_string :: "string \<Rightarrow> string \<Rightarrow> error + string"
  image_to_data :: "string \<Rightarrow> string \<Rightarrow> error + tess_data"

definition perform_ocr ::
  "ocr_engine \<Rightarrow> real \<Rightarrow> real \<Rightarrow> string \<Rightarrow> string \<Rightarrow> error + OCRResult" where
  "perform_ocr engine start_time end_time img language =
     (case image_to_string engine img language of
        Inl e \<Rightarrow> Inl (OCRFailed e)
      | Inr txt \<Rightarrow>
          (case image_to_data engine img language of
             Inl e \<Rightarrow> Inl (OCRFailed e)
           | Inr data \<Rightarrow>
               (case collect_boxes data 0 (td_conf data) [] of
                  Inl e \<Rightarrow> Inl (OCRFailed e)
                | Inr boxes \<Rightarrow>
                    Inr \<lparr>ocr_text = py_strip txt,
                         ocr_confidence =
                           (if boxes \<noteq> [] then
                              real_of_int (sum_list (map bb_confidence boxes))
                                / real (length boxes)
                            else 0),
                         ocr_bounding_boxes = boxes,
                         ocr_processing_time = end_time - start_time\<rparr>)))"

section \<open>The routes of the AI service (app/api/routes.py)\<close>

record ShapeDetectionRequest =
  image_data :: string
  confidence_threshold :: real
  max_shapes :: int

record OCRRequest =
  ocr_image_data :: string
  ocr_language :: string
  ocr_confidence_threshold :: real

text \<open>\<open>HTTPException(status_code=..., detail=...)\<close>, by its status code and cause.\<close>

datatype http_error = HTTPException nat error

text \<open>
  The route handlers call the service with \<open>request.image_data\<close> alone, so the service's
  parameters \<open>confidence_threshold\<close> and \<open>language\<close> take their defaults.
\<close>

definition detect_shapes_route ::
  "(string \<Rightarrow> error + contour list) \<Rightarrow> real \<Rightarrow> real \<Rightarrow> ShapeDetectionRequest
     \<Rightarrow> http_error + ShapeDetectionResult" where
  "detect_shapes_route find_contours start_time end_time request =
     (case detect_shapes find_contours start_time end_time (image_data request)
             default_confidence_threshold of
        Inl e \<Rightarrow> Inl (HTTPException 500 e)
      | Inr result \<Rightarrow> Inr result)"

definition perform_ocr_route ::
  "ocr_engine \<Rightarrow> real \<Rightarrow> real \<Rightarrow> OCRRequest \<Rightarrow> http_error + OCRResult" where
  "perform_ocr_route engine start_time end_time request =
     (case perform_ocr engine start_time end_time (ocr_image_data request) ''eng'' of
        Inl e \<Rightarrow> Inl (HTTPException 500 e)
      | Inr result \<Rightarrow> Inr result)"

section \<open>Concrete inputs\<close>

text \<open>
  The scenario of the specification: room "Team A", and a document of three strokes
  coloured red, red and blue, the second one a circle drawn with the shape tool.
\<close>

definition demo_stroke :: "string \<Rightarrow> ToolType \<Rightarrow> ShapeType option \<Rightarrow> DrawingStroke" where
  "demo_stroke c t st = \<lparr>points = [\<lparr>point_x = 0, point_y = 0, pressure = Some 1\<rparr>],
     color = c, width = 2, tool = t, shape_type = st\<rparr>"

definition demo_document :: DrawingData where
  "demo_document = \<lparr>strokes = [demo_stroke ''red'' PEN None,
       demo_stroke ''red'' SHAPE (Some CIRCLE), demo_stroke ''blue'' PEN None],
     canvas_width = 1920, canvas_height = 1080, background_color = ''#ffffff'',
     timestamp = None\<rparr>"

definition demo_service :: CanvasService where
  "demo_service =
     snd (create_room init_service ''Team A'' ''room-1'' ''2024-01-01T00:00:00'')"

text \<open>The room of the scenario after two members have joined it.\<close>

definition joined_service :: CanvasService where
  "joined_service =
     snd (join_room (snd (join_room demo_service ''room-1'' ''alice'')) ''room-1'' ''bob'')"

text \<open>
  Contours as the classifier sees them: a triangle, a square and a 2:1 rectangle, a
  twelve-vertex approximation of a circle, a twelve-vertex elongated blob, and a
  pentagon.
\<close>

definition demo_triangle :: contour where
  "demo_triangle = \<lparr>n_points = 3, rect_x = 0, rect_y = 0, rect_w = 11, rect_h = 11,
     contour_area = 50, arc_length = 341 / 10\<rparr>"

definition demo_square :: contour where
  "demo_square = \<lparr>n_points = 4, rect_x = 0, rect_y = 0, rect_w = 10, rect_h = 10,
     contour_area = 81, arc_length = 36\<rparr>"

definition demo_rectangle :: contour where
  "demo_rectangle = \<lparr>n_points = 4, rect_x = 0, rect_y = 0, rect_w = 20, rect_h = 10,
     contour_area = 171, arc_length = 56\<rparr>"

definition demo_circle :: contour where
  "demo_circle = \<lparr>n_points = 12, rect_x = 0, rect_y = 0, rect_w = 12, rect_h = 12,
     contour_area = 100, arc_length = 36\<rparr>"

definition demo_blob :: contour where
  "demo_blob = \<lparr>n_points = 12, rect_x = 0, rect_y = 0, rect_w = 30, rect_h = 5,
     contour_area = 10, arc_length = 36\<rparr>"

definition demo_pentagon :: contour where
  "demo_pentagon = \<lparr>n_points = 5, rect_x = 0, rect_y = 0, rect_w = 10, rect_h = 10,
     contour_area = 60, arc_length = 30\<rparr>"

text \<open>
  A shape-detection request whose image has the triangle as its only contour, sent with
  the threshold 0.95.
\<close>

definition demo_find_contours :: "string \<Rightarrow> error + contour list" where
  "demo_find_contours img = Inr [demo_triangle]"

definition demo_request :: ShapeDetectionRequest where
  "demo_request = \<lparr>image_data = ''triangle.png'', confidence_threshold = 95 / 100, max_shapes = 10\<rparr>"

text \<open>
  An OCR run: Tesseract reports a page row without text (confidence -1) and three words
  with confidences 96, 60 and 61.
\<close>

definition demo_tess_data :: tess_data where
  "demo_tess_data = \<lparr>td_conf = [-1, 96, 60, 61], td_text = ['''', ''Hello'', ''wor1d'', ''again''],
     td_left = [0, 10, 60, 110], td_top = [0, 5, 5, 5], td_width = [200, 40, 40, 40],
     td_height = [50, 12, 12, 12]\<rparr>"

definition demo_engine :: ocr_engine where
  "demo_engine = \<lparr>image_to_string = (\<lambda>img lang. Inr ''Hello wor1d again\<newline>''),
     image_to_data = (\<lambda>img lang. Inr demo_tess_data)\<rparr>"

definition demo_ocr_request :: OCRRequest where
  "demo_ocr_request = \<lparr>ocr_image_data = ''text.png'', ocr_language = ''eng'',
     ocr_confidence_threshold = 6 / 10\<rparr>"

section \<open>Notions used to state the properties\<close>

text \<open>The arithmetic mean of the confidences of a list of shapes, 0 for the empty list.\<close>

definition mean_confidence :: "shape_info list \<Rightarrow> real" where
  "mean_confidence shapes =
     (if shapes = [] then 0 else sum_list (map shape_confidence shapes) / real (length shapes))"

text \<open>The bounding-box entry of fragment \<open>i\<close> of an OCR output.\<close>

definition box_at :: "tess_data \<Rightarrow> nat \<Rightarrow> bounding_box" where
  "box_at data i = \<lparr>bb_text = td_text data ! i, bb_confidence = td_conf data ! i,
     bb_bbox = \<lparr>bbox_x = td_left data ! i, bbox_y = td_top data ! i,
       bbox_width = td_width data ! i, bbox_height = td_height data ! i\<rparr>\<rparr>"

text \<open>All columns of an OCR output have one entry per fragment.\<close>

definition columns_aligned :: "tess_data \<Rightarrow> bool" where
  "columns_aligned data =
     (length (td_text data) = length (td_conf data) \<and>
      length (td_left data) = length (td_conf data) \<and>
      length (td_top data) = length (td_conf data) \<and>
      length (td_width data) = length (td_conf data) \<and>
      length (td_height data) = length (td_conf data))"

section \<open>The counting loops\<close>

lemma count_colors_gen:
  "count_colors cu xs c =
     (if c \<in> set (map color xs)
      then Some (get0 cu c + int (count (mset (map color xs)) c))
      else cu c)"
proof (induction xs arbitrary: cu)
  case Nil
  then show ?case by simp
next
  case (Cons a xs)
  then show ?case by (auto simp: get0_def count_eq_zero_iff)
qed

lemma shape_names_simps:
  "shape_names [] = []"
  "shape_names (x # xs) =
     (case shape_type x of None \<Rightarrow> shape_names xs
      | Some st \<Rightarrow> shape_value st # shape_names xs)"
  by (simp_all add: shape_names_def map_filter_simps split: option.splits)

lemma count_shapes_gen:
  "count_shapes sc xs k =
     (if k \<in> set (shape_names xs)
      then Some (get0 sc k + int (count (mset (shape_names xs)) k))
      else sc k)"
proof (induction xs arbitrary: sc)
  case Nil
  then show ?case by (simp add: shape_names_simps)
next
  case (Cons a xs)
  then show ?case
    by (auto simp: get0_def count_eq_zero_iff shape_names_simps split: option.splits)
qed

section \<open>Invariants of the reachable states\<close>

text \<open>
  A room has a canvas exactly when it is registered, and analytics only when it is
  registered.
\<close>

lemma inv_dom:
  "reachable s \<Longrightarrow>
     (\<forall>r. (canvas_data s r = None) = (rooms s r = None)) \<and>
     (\<forall>r. rooms s r = None \<longrightarrow> analytics s r = None)"
proof (induction rule: reachable.induct)
  case r_init
  then show ?case by (simp add: init_service_def)
next
  case (r_create s name new_id now)
  then show ?case by (simp add: create_room_def)
next
  case (r_save s rid d)
  then show ?case
    by (auto simp: save_canvas_def update_room_analytics_def Let_def split: option.splits)
next
  case (r_join s rid user_id)
  then show ?case by (auto simp: join_room_def split: option.splits)
next
  case (r_leave s rid user_id)
  then show ?case by (auto simp: leave_room_def split: option.splits)
next
  case (r_delete s rid)
  then show ?case by (auto simp: delete_room_def Let_def split: option.splits)
qed

text \<open>The member count of every registered room is at least 0.\<close>

lemma inv_nonneg:
  "reachable s \<Longrightarrow> rooms s r = Some rm \<Longrightarrow> 0 \<le> room_active_users rm"
proof (induction arbitrary: r rm rule: reachable.induct)
  case r_init
  then show ?case by (simp add: init_service_def)
next
  case (r_create s name new_id now)
  then show ?case by (auto simp: create_room_def split: if_splits)
next
  case (r_save s rid d)
  then show ?case
    by (auto simp: save_canvas_def update_room_analytics_def Let_def split: option.splits)
next
  case (r_join s rid user_id)
  then show ?case by (fastforce simp: join_room_def split: option.splits if_splits)
next
  case (r_leave s rid user_id)
  then show ?case by (fastforce simp: leave_room_def split: option.splits if_splits)
next
  case (r_delete s rid)
  then show ?case
    by (auto simp: delete_room_def Let_def split: option.splits if_splits)
qed

text \<open>
  Every stored analytics record still has the active-user field and the heatmap it was
  first created with.
\<close>

lemma inv_analytics:
  "reachable s \<Longrightarrow> analytics s r = Some a \<Longrightarrow>
     active_users a = 1 \<and> heatmap_data a = default_heatmap"
proof (induction arbitrary: r a rule: reachable.induct)
  case r_init
  then show ?case by (simp add: init_service_def)
next
  case (r_create s name new_id now)
  then show ?case by (auto simp: create_room_def split: if_splits)
next
  case (r_save s rid d)
  then show ?case
    by (auto simp: save_canvas_def update_room_analytics_def Let_def fresh_analytics_def
        split: option.splits if_splits)
next
  case (r_join s rid user_id)
  then show ?case by (auto simp: join_room_def split: option.splits if_splits)
next
  case (r_leave s rid user_id)
  then show ?case by (auto simp: leave_room_def split: option.splits if_splits)
next
  case (r_delete s rid)
  then show ?case
    by (auto simp: delete_room_def Let_def split: option.splits if_splits)
qed

section \<open>Saving, joining, leaving: the outcome of each case\<close>

lemma save_canvas_known:
  "rooms s rid = Some rm \<Longrightarrow>
     save_canvas s rid d =
       (Inr (), s\<lparr>canvas_data := (canvas_data s)(rid \<mapsto> d),
                   analytics := (analytics s)(rid \<mapsto>
                     (case analytics s rid of None \<Rightarrow> fresh_analytics | Some a \<Rightarrow> a)
                       \<lparr>total_strokes := int (length (strokes d)),
                        color_usage := count_colors Map.empty (strokes d),
                        shape_count := count_shapes Map.empty (strokes d),
                        drawing_time := real (length (strokes d)) * seconds_per_stroke\<rparr>)\<rparr>)"
  by (simp add: save_canvas_def update_room_analytics_def Let_def)

lemma save_canvas_unknown:
  "rooms s rid = None \<Longrightarrow> save_canvas s rid d = (Inl RoomNotFound, s)"
  by (simp add: save_canvas_def)

lemma save_canvas_fst:
  "fst (save_canvas s rid d) = Inr () \<longleftrightarrow> rooms s rid \<noteq> None"
  by (auto simp: save_canvas_def split: option.splits)

lemma reachable_demo: "reachable demo_service"
  unfolding demo_service_def by (rule r_create) (rule r_init)

lemma demo_room:
  "rooms demo_service ''room-1'' = Some \<lparr>room_id = ''room-1'', room_name = ''Team A'',
     room_created_at = ''2024-01-01T00:00:00'', room_active_users = 0,
     room_canvas_width = 1920, room_canvas_height = 1080\<rparr>"
  by (simp add: demo_service_def create_room_def DEFAULT_CANVAS_WIDTH_def DEFAULT_CANVAS_HEIGHT_def)

lemma demo_no_room2: "rooms demo_service ''room-2'' = None"
  by (simp add: demo_service_def create_room_def init_service_def)

lemma reachable_joined: "reachable joined_service"
  unfolding joined_service_def by (intro r_join reachable_demo)

lemma leave_room_pow:
  "rooms s r = Some rm \<Longrightarrow> 0 \<le> room_active_users rm \<Longrightarrow>
   rooms (((\<lambda>t. leave_room t r u) ^^ n) s) r
     = Some (rm\<lparr>room_active_users := max 0 (room_active_users rm - int n)\<rparr>)"
proof (induction n)
  case 0
  then show ?case by simp
next
  case (Suc n)
  then show ?case by (simp add: leave_room_def max_def)
qed

lemma join_room_pow:
  "rooms s r = Some rm \<Longrightarrow>
   rooms (((\<lambda>t. snd (join_room t r u)) ^^ n) s) r
     = Some (rm\<lparr>room_active_users := room_active_users rm + int n\<rparr>)"
proof (induction n)
  case 0
  then show ?case by simp
next
  case (Suc n)
  then show ?case by (simp add: join_room_def)
qed

section \<open>Reading the canvas\<close>

text \<open>
  Counterexample to C1 as stated: a room that was created and never saved has a canvas.
  \<open>create_room\<close> stores an empty document for the new room ("Initialize empty canvas"),
  so \<open>get_canvas\<close> returns that document instead of failing.
\<close>

theorem get_canvas_after_create_counterexample:
  "get_canvas (snd (create_room init_service ''Team A'' ''room-1'' ''2024-01-01T00:00:00'')) ''room-1''
     = Inr empty_canvas \<and>
   get_canvas (snd (create_room init_service ''Team A'' ''room-1'' ''2024-01-01T00:00:00'')) ''room-1''
     \<noteq> Inl CanvasNotFound"
  by (simp add: create_room_def get_canvas_def)

text \<open>
  C1 (amended).  \<open>get_canvas\<close> fails with NotFound exactly when the room has no canvas
  entry, which in a reachable state means that the room is not registered (never
  created, or deleted).  For a room that was created and never saved it returns the
  empty default document that \<open>create_room\<close> stored; after a successful save it returns
  the document saved last; a failed save, a save or a create or a delete of another
  room, and every join and leave leave the result unchanged; after the room's deletion
  it fails with NotFound.
\<close>

theorem get_canvas_spec:
  "(get_canvas s r = Inl CanvasNotFound \<longleftrightarrow> canvas_data s r = None) \<and>
   (reachable s \<longrightarrow> (get_canvas s r = Inl CanvasNotFound \<longleftrightarrow> rooms s r = None)) \<and>
   get_canvas (snd (create_room s name r now)) r = Inr empty_canvas \<and>
   (rooms s r \<noteq> None \<longrightarrow> get_canvas (snd (save_canvas s r d)) r = Inr d) \<and>
   (rooms s r = None \<longrightarrow> get_canvas (snd (save_canvas s r d)) r = get_canvas s r) \<and>
   get_canvas (delete_room s r) r = Inl CanvasNotFound \<and>
   (r' \<noteq> r \<longrightarrow> get_canvas (snd (create_room s name r' now)) r = get_canvas s r
       \<and> get_canvas (snd (save_canvas s r' d)) r = get_canvas s r
       \<and> get_canvas (delete_room s r') r = get_canvas s r) \<and>
   get_canvas (snd (join_room s r'' u)) r = get_canvas s r \<and>
   get_canvas (leave_room s r'' u) r = get_canvas s r"
proof -
  have a: "get_canvas s r = Inl CanvasNotFound \<longleftrightarrow> canvas_data s r = None"
    by (simp add: get_canvas_def split: option.splits)
  have b: "reachable s \<longrightarrow> (get_canvas s r = Inl CanvasNotFound \<longleftrightarrow> rooms s r = None)"
    using a inv_dom[of s] by simp
  have c: "get_canvas (snd (create_room s name r now)) r = Inr empty_canvas"
    by (simp add: create_room_def get_canvas_def)
  have d: "rooms s r \<noteq> None \<longrightarrow> get_canvas (snd (save_canvas s r d)) r = Inr d"
    by (auto simp: save_canvas_known get_canvas_def)
  have e: "rooms s r = None \<longrightarrow> get_canvas (snd (save_canvas s r d)) r = get_canvas s r"
    by (simp add: save_canvas_unknown)
  have f: "get_canvas (delete_room s r) r = Inl CanvasNotFound"
    by (simp add: delete_room_def get_canvas_def Let_def split: option.splits)
  have g: "r' \<noteq> r \<longrightarrow> get_canvas (snd (create_room s name r' now)) r = get_canvas s r
       \<and> get_canvas (snd (save_canvas s r' d)) r = get_canvas s r
       \<and> get_canvas (delete_room s r') r = get_canvas s r"
    by (auto simp: create_room_def get_canvas_def save_canvas_def update_room_analytics_def
        delete_room_def Let_def split: option.splits)
  have h: "get_canvas (snd (join_room s r'' u)) r = get_canvas s r"
    by (simp add: join_room_def get_canvas_def split: option.splits)
  have i: "get_canvas (leave_room s r'' u) r = get_canvas s r"
    by (simp add: leave_room_def get_canvas_def split: option.splits)
  from a b c d e f g h i show ?thesis by blast
qed

theorem get_canvas_spec_witness:
  "reachable demo_service \<and> rooms demo_service ''room-1'' \<noteq> None \<and> rooms demo_service ''room-2'' = None
   \<and> ''room-2'' \<noteq> ''room-1''
   \<and> get_canvas demo_service ''room-1'' \<noteq> Inl CanvasNotFound
   \<and> get_canvas demo_service ''room-2'' = Inl CanvasNotFound
   \<and> get_canvas (snd (save_canvas demo_service ''room-1'' demo_document)) ''room-1'' = Inr demo_document
   \<and> get_canvas (snd (save_canvas demo_service ''room-2'' demo_document)) ''room-2'' = Inl CanvasNotFound
   \<and> get_canvas (snd (save_canvas demo_service ''room-2'' demo_document)) ''room-1'' = get_canvas demo_service ''room-1''"
  using get_canvas_spec[of demo_service "''room-1''" "''Team A''" "''now''" demo_document "''room-2''" "''room-2''" "''u''"]
    get_canvas_spec[of demo_service "''room-2''" "''Team A''" "''now''" demo_document "''room-1''" "''room-2''" "''u''"]
    reachable_demo
  by (simp add: demo_service_def create_room_def init_service_def)

section \<open>Analytics recomputed by a save\<close>

text \<open>
  C2.  After a successful \<open>save_canvas s rid d\<close> the analytics stored for the room have:
  as total stroke count the length of the stroke sequence of \<open>d\<close>; as colour usage, for
  each colour, the number of strokes of that colour (and no entry for a colour no stroke
  has); as shape count, for each shape kind, the number of strokes of that kind, strokes
  without a shape kind not being counted; as drawing time the stroke count times the
  fixed per-stroke constant.
\<close>

theorem save_analytics_spec:
  assumes "fst (save_canvas s rid d) = Inr ()"
  shows "\<exists>a. analytics (snd (save_canvas s rid d)) rid = Some a \<and>
           total_strokes a = int (length (strokes d)) \<and>
           (\<forall>c. color_usage a c =
              (if c \<in> set (map color (strokes d))
               then Some (int (count (mset (map color (strokes d))) c)) else None)) \<and>
           (\<forall>k. shape_count a k =
              (if k \<in> set (shape_names (strokes d))
               then Some (int (count (mset (shape_names (strokes d))) k)) else None)) \<and>
           drawing_time a = real (length (strokes d)) * seconds_per_stroke"
proof -
  from assms obtain rm where rm: "rooms s rid = Some rm"
    by (auto simp: save_canvas_fst)
  show ?thesis
    unfolding save_canvas_known[OF rm]
    by (simp add: count_colors_gen count_shapes_gen get0_def)
qed

text \<open>
  The scenario of the specification: the three-stroke document (red, red, blue, one
  circle) saved into room "Team A" gives 3 strokes, colour usage red 2 and blue 1, and
  shape count circle 1.
\<close>

theorem save_analytics_spec_witness:
  "fst (save_canvas demo_service ''room-1'' demo_document) = Inr () \<and>
   total_strokes (get_room_analytics (snd (save_canvas demo_service ''room-1'' demo_document)) ''room-1'') = 3 \<and>
   color_usage (get_room_analytics (snd (save_canvas demo_service ''room-1'' demo_document)) ''room-1'')
      = [''red'' \<mapsto> 2, ''blue'' \<mapsto> 1] \<and>
   shape_count (get_room_analytics (snd (save_canvas demo_service ''room-1'' demo_document)) ''room-1'')
      = [''circle'' \<mapsto> 1]"
proof -
  have ok: "fst (save_canvas demo_service ''room-1'' demo_document) = Inr ()"
    by (simp add: save_canvas_def demo_service_def create_room_def)
  from save_analytics_spec[OF ok] obtain a where
    a: "analytics (snd (save_canvas demo_service ''room-1'' demo_document)) ''room-1'' = Some a"
    and t: "total_strokes a = int (length (strokes demo_document))"
    and c: "\<And>c. color_usage a c =
              (if c \<in> set (map color (strokes demo_document))
               then Some (int (count (mset (map color (strokes demo_document))) c)) else None)"
    and k: "\<And>k. shape_count a k =
              (if k \<in> set (shape_names (strokes demo_document))
               then Some (int (count (mset (shape_names (strokes demo_document))) k)) else None)"
    by blast
  have g: "get_room_analytics (snd (save_canvas demo_service ''room-1'' demo_document)) ''room-1'' = a"
    by (simp add: get_room_analytics_def a)
  have t3: "total_strokes a = 3" using t by (simp add: demo_document_def)
  have cu: "color_usage a = [''red'' \<mapsto> 2, ''blue'' \<mapsto> 1]"
    by (rule ext) (simp add: c demo_document_def demo_stroke_def)
  have sc: "shape_count a = [''circle'' \<mapsto> 1]"
    by (rule ext) (simp add: k demo_document_def demo_stroke_def shape_names_simps)
  show ?thesis using ok g t3 cu sc by simp
qed

section \<open>Atomicity of a save\<close>

text \<open>
  C4.  \<open>save_canvas\<close> fails with NotFound when the room is unknown to the registry and
  succeeds otherwise.  Whenever it fails the state is the one before the call, so the
  stored document and the analytics are unchanged.  When it succeeds, the stored
  document of the room is the saved one and the analytics of the room have been
  recomputed from it in the same call; the registry and the other rooms' documents and
  analytics are untouched.
\<close>

theorem save_canvas_atomic:
  "(rooms s rid = None \<longrightarrow> save_canvas s rid d = (Inl RoomNotFound, s)) \<and>
   (rooms s rid \<noteq> None \<longrightarrow> fst (save_canvas s rid d) = Inr ()) \<and>
   (\<forall>e. fst (save_canvas s rid d) = Inl e \<longrightarrow> snd (save_canvas s rid d) = s) \<and>
   (fst (save_canvas s rid d) = Inr () \<longrightarrow>
      canvas_data (snd (save_canvas s rid d)) rid = Some d \<and>
      (\<exists>a. analytics (snd (save_canvas s rid d)) rid = Some a \<and>
           total_strokes a = int (length (strokes d)) \<and>
           color_usage a = count_colors Map.empty (strokes d) \<and>
           shape_count a = count_shapes Map.empty (strokes d) \<and>
           drawing_time a = real (length (strokes d)) * seconds_per_stroke) \<and>
      rooms (snd (save_canvas s rid d)) = rooms s \<and>
      (\<forall>r. r \<noteq> rid \<longrightarrow>
           canvas_data (snd (save_canvas s rid d)) r = canvas_data s r \<and>
           analytics (snd (save_canvas s rid d)) r = analytics s r))"
proof (cases "rooms s rid")
  case None
  then show ?thesis by (simp add: save_canvas_unknown)
next
  case (Some rm)
  then show ?thesis by (simp add: save_canvas_known)
qed

theorem save_canvas_atomic_witness:
  "rooms demo_service ''room-2'' = None \<and>
   save_canvas demo_service ''room-2'' demo_document = (Inl RoomNotFound, demo_service) \<and>
   rooms demo_service ''room-1'' \<noteq> None \<and>
   fst (save_canvas demo_service ''room-1'' demo_document) = Inr () \<and>
   canvas_data (snd (save_canvas demo_service ''room-1'' demo_document)) ''room-1''
     = Some demo_document \<and>
   map_option total_strokes
     (analytics (snd (save_canvas demo_service ''room-1'' demo_document)) ''room-1'') = Some 3"
  using save_canvas_atomic[of demo_service "''room-2''" demo_document]
    save_canvas_atomic[of demo_service "''room-1''" demo_document]
    demo_room demo_no_room2
  by (auto simp: demo_document_def)

section \<open>Member counts\<close>

text \<open>
  C5.  In every reachable state the member count of every registered room is at least
  0.  \<open>create_room\<close> starts the count at 0; \<open>join_room\<close> on a registered room succeeds and
  adds 1, and on an absent room fails with NotFound leaving the state as it was;
  \<open>leave_room\<close> subtracts 1 but not below 0, and does nothing for an absent room; after
  any number \<open>n\<close> of leaves the count is \<open>max 0 (count - n)\<close>, never negative.
\<close>

theorem member_count_never_negative:
  assumes "reachable s"
  shows "(\<forall>r rm. rooms s r = Some rm \<longrightarrow> 0 \<le> room_active_users rm) \<and>
         map_option room_active_users (rooms (snd (create_room s name new_id now)) new_id) = Some 0 \<and>
         (\<forall>rm. rooms s r = Some rm \<longrightarrow>
            fst (join_room s r u) = Inr () \<and>
            rooms (snd (join_room s r u)) r
              = Some (rm\<lparr>room_active_users := room_active_users rm + 1\<rparr>) \<and>
            rooms (leave_room s r u) r
              = Some (rm\<lparr>room_active_users := max 0 (room_active_users rm - 1)\<rparr>) \<and>
            (\<forall>n. rooms (((\<lambda>t. leave_room t r u) ^^ n) s) r
              = Some (rm\<lparr>room_active_users := max 0 (room_active_users rm - int n)\<rparr>))) \<and>
         (rooms s r = None \<longrightarrow>
            join_room s r u = (Inl RoomNotFound, s) \<and> leave_room s r u = s)"
proof -
  have a: "\<forall>r rm. rooms s r = Some rm \<longrightarrow> 0 \<le> room_active_users rm"
    using assms inv_nonneg by blast
  have b: "map_option room_active_users (rooms (snd (create_room s name new_id now)) new_id) = Some 0"
    by (simp add: create_room_def)
  have c: "\<forall>rm. rooms s r = Some rm \<longrightarrow>
            fst (join_room s r u) = Inr () \<and>
            rooms (snd (join_room s r u)) r
              = Some (rm\<lparr>room_active_users := room_active_users rm + 1\<rparr>) \<and>
            rooms (leave_room s r u) r
              = Some (rm\<lparr>room_active_users := max 0 (room_active_users rm - 1)\<rparr>) \<and>
            (\<forall>n. rooms (((\<lambda>t. leave_room t r u) ^^ n) s) r
              = Some (rm\<lparr>room_active_users := max 0 (room_active_users rm - int n)\<rparr>))"
    using a leave_room_pow[where s=s and r=r and u=u] by (simp add: join_room_def leave_room_def)
  have d: "rooms s r = None \<longrightarrow>
            join_room s r u = (Inl RoomNotFound, s) \<and> leave_room s r u = s"
    by (simp add: join_room_def leave_room_def)
  from a b c d show ?thesis by blast
qed

theorem member_count_never_negative_witness:
  "reachable demo_service \<and>
   map_option room_active_users (rooms demo_service ''room-1'') = Some 0 \<and>
   map_option room_active_users (rooms (snd (join_room demo_service ''room-1'' ''alice'')) ''room-1'') = Some 1 \<and>
   map_option room_active_users (rooms (leave_room demo_service ''room-1'' ''alice'') ''room-1'') = Some 0 \<and>
   map_option room_active_users
     (rooms (((\<lambda>t. leave_room t ''room-1'' ''alice'') ^^ 5) demo_service) ''room-1'') = Some 0 \<and>
   rooms demo_service ''room-2'' = None \<and>
   join_room demo_service ''room-2'' ''alice'' = (Inl RoomNotFound, demo_service) \<and>
   leave_room demo_service ''room-2'' ''alice'' = demo_service"
  using member_count_never_negative[OF reachable_demo, of "''Team A''" "''room-1''" "''now''" "''room-1''" "''alice''"]
    member_count_never_negative[OF reachable_demo, of "''Team A''" "''room-1''" "''now''" "''room-2''" "''alice''"]
    demo_room demo_no_room2 reachable_demo
  by simp

section \<open>Deleting a room\<close>

text \<open>
  C8.  After \<open>delete_room s r\<close> none of the three dictionaries has an entry for \<open>r\<close>, and
  the entries of every other room are as before.  Deleting twice is the same as
  deleting once, and deleting a room that is not registered leaves a reachable state
  exactly as it was: no error arises in any case.
\<close>

theorem delete_room_cascade:
  "rooms (delete_room s r) r = None \<and>
   canvas_data (delete_room s r) r = None \<and>
   analytics (delete_room s r) r = None \<and>
   (\<forall>r'. r' \<noteq> r \<longrightarrow> rooms (delete_room s r) r' = rooms s r' \<and>
        canvas_data (delete_room s r) r' = canvas_data s r' \<and>
        analytics (delete_room s r) r' = analytics s r') \<and>
   delete_room (delete_room s r) r = delete_room s r \<and>
   (reachable s \<and> rooms s r = None \<longrightarrow> delete_room s r = s)"
proof -
  have a: "rooms (delete_room s r) r = None \<and> canvas_data (delete_room s r) r = None \<and>
     analytics (delete_room s r) r = None"
    by (simp add: delete_room_def Let_def split: option.splits)
  have b: "\<forall>r'. r' \<noteq> r \<longrightarrow> rooms (delete_room s r) r' = rooms s r' \<and>
        canvas_data (delete_room s r) r' = canvas_data s r' \<and>
        analytics (delete_room s r) r' = analytics s r'"
    by (simp add: delete_room_def Let_def split: option.splits)
  have absent: "delete_room t r = t"
    if "rooms t r = None" "canvas_data t r = None" "analytics t r = None" for t
    using that by (simp add: delete_room_def)
  have c: "delete_room (delete_room s r) r = delete_room s r"
    using a absent by blast
  have d: "reachable s \<and> rooms s r = None \<longrightarrow> delete_room s r = s"
    using inv_dom[of s] absent[of s] by auto
  from a b c d show ?thesis by blast
qed

theorem delete_room_cascade_witness:
  "''room-2'' \<noteq> ''room-1'' \<and> reachable demo_service \<and> rooms demo_service ''room-2'' = None \<and>
   rooms demo_service ''room-1'' \<noteq> None \<and>
   rooms (delete_room demo_service ''room-1'') ''room-1'' = None \<and>
   rooms (delete_room demo_service ''room-2'') ''room-1'' = rooms demo_service ''room-1'' \<and>
   delete_room demo_service ''room-2'' = demo_service"
  using delete_room_cascade[of demo_service "''room-1''"]
    delete_room_cascade[of demo_service "''room-2''"]
    demo_room demo_no_room2 reachable_demo
  by simp

section \<open>What the analytics depend on\<close>

text \<open>
  Counterexample to C9 as stated: after two members joined room "Team A", a save leaves
  the registry's member count at 2 while the active-user field of the analytics is 1.
\<close>

theorem analytics_active_users_counterexample:
  "map_option room_active_users
     (rooms (snd (save_canvas joined_service ''room-1'' demo_document)) ''room-1'') = Some 2 \<and>
   map_option active_users
     (analytics (snd (save_canvas joined_service ''room-1'' demo_document)) ''room-1'') = Some 1"
  by (simp add: joined_service_def demo_service_def create_room_def join_room_def
      save_canvas_def update_room_analytics_def Let_def init_service_def fresh_analytics_def)

text \<open>
  C9 (amended).  In a reachable state the analytics record that a successful save stores
  for a room is a function of the saved document alone, \<open>analytics_of_document\<close>: its
  active-user field is the constant 1 and does not depend on the registry's member
  count.  A failed save, \<open>join_room\<close>, \<open>leave_room\<close> and \<open>create_room\<close> leave all
  analytics as they are.
\<close>

theorem analytics_function_of_document:
  assumes "reachable s"
  shows "(rooms s rid \<noteq> None \<longrightarrow>
            analytics (snd (save_canvas s rid d)) rid = Some (analytics_of_document d)) \<and>
         (rooms s rid = None \<longrightarrow> analytics (snd (save_canvas s rid d)) = analytics s) \<and>
         active_users (analytics_of_document d) = 1 \<and>
         analytics (snd (join_room s r u)) = analytics s \<and>
         analytics (leave_room s r u) = analytics s \<and>
         analytics (snd (create_room s name new_id now)) = analytics s"
proof -
  have a: "rooms s rid \<noteq> None \<longrightarrow>
            analytics (snd (save_canvas s rid d)) rid = Some (analytics_of_document d)"
  proof
    assume "rooms s rid \<noteq> None"
    then obtain rm where rm: "rooms s rid = Some rm" by blast
    show "analytics (snd (save_canvas s rid d)) rid = Some (analytics_of_document d)"
    proof (cases "analytics s rid")
      case None
      then show ?thesis
        by (simp add: save_canvas_known[OF rm] analytics_of_document_def fresh_analytics_def)
    next
      case (Some a)
      with inv_analytics[OF assms Some] show ?thesis
        by (simp add: save_canvas_known[OF rm] analytics_of_document_def)
    qed
  qed
  have b: "rooms s rid = None \<longrightarrow> analytics (snd (save_canvas s rid d)) = analytics s"
    by (simp add: save_canvas_unknown)
  have c: "active_users (analytics_of_document d) = 1"
    by (simp add: analytics_of_document_def)
  have e: "analytics (snd (join_room s r u)) = analytics s"
    by (simp add: join_room_def split: option.splits)
  have f: "analytics (leave_room s r u) = analytics s"
    by (simp add: leave_room_def split: option.splits)
  have g: "analytics (snd (create_room s name new_id now)) = analytics s"
    by (simp add: create_room_def)
  from a b c e f g show ?thesis by blast
qed

theorem analytics_function_of_document_witness:
  "reachable joined_service \<and> rooms joined_service ''room-1'' \<noteq> None \<and>
   analytics (snd (save_canvas joined_service ''room-1'' demo_document)) ''room-1''
     = Some (analytics_of_document demo_document) \<and>
   rooms joined_service ''room-2'' = None \<and>
   analytics (snd (save_canvas joined_service ''room-2'' demo_document)) = analytics joined_service"
  using analytics_function_of_document[OF reachable_joined, of "''room-1''" demo_document]
    analytics_function_of_document[OF reachable_joined, of "''room-2''" demo_document]
    reachable_joined
  by (simp add: joined_service_def demo_service_def create_room_def join_room_def init_service_def)

section \<open>The member identifier\<close>

text \<open>
  C10.  \<open>join_room\<close> and \<open>leave_room\<close> ignore the member identifier: for any state and
  room, two different identifiers give the same outcome and the same state.  Membership
  is a bare counter: the same identifier joining twice raises the count by 2, and
  joining \<open>n\<close> times raises it by \<open>n\<close>.
\<close>

theorem join_leave_ignore_member:
  "join_room s r m1 = join_room s r m2 \<and>
   leave_room s r m1 = leave_room s r m2 \<and>
   (\<forall>rm. rooms s r = Some rm \<longrightarrow>
      rooms (snd (join_room (snd (join_room s r m)) r m)) r
        = Some (rm\<lparr>room_active_users := room_active_users rm + 2\<rparr>) \<and>
      (\<forall>n. rooms (((\<lambda>t. snd (join_room t r m)) ^^ n) s) r
        = Some (rm\<lparr>room_active_users := room_active_users rm + int n\<rparr>)))"
proof -
  have j: "join_room s r m1 = join_room s r m2"
    by (simp add: join_room_def)
  have l: "leave_room s r m1 = leave_room s r m2"
    by (simp add: leave_room_def)
  have twice: "rooms (snd (join_room (snd (join_room s r m)) r m)) r
        = Some (rm\<lparr>room_active_users := room_active_users rm + 2\<rparr>)"
    if "rooms s r = Some rm" for rm
    using that by (simp add: join_room_def)
  have many: "rooms (((\<lambda>t. snd (join_room t r m)) ^^ n) s) r
        = Some (rm\<lparr>room_active_users := room_active_users rm + int n\<rparr>)"
    if "rooms s r = Some rm" for rm n
    using that by (rule join_room_pow)
  from j l twice many show ?thesis by blast
qed

theorem join_leave_ignore_member_witness:
  "join_room demo_service ''room-1'' ''alice'' = join_room demo_service ''room-1'' ''bob'' \<and>
   leave_room demo_service ''room-1'' ''alice'' = leave_room demo_service ''room-1'' ''bob'' \<and>
   rooms demo_service ''room-1'' \<noteq> None \<and>
   map_option room_active_users
     (rooms (snd (join_room (snd (join_room demo_service ''room-1'' ''alice'')) ''room-1'' ''alice''))
        ''room-1'') = Some 2"
proof -
  note t = join_leave_ignore_member[of demo_service "''room-1''" "''alice''" "''bob''" "''alice''"]
  have a: "join_room demo_service ''room-1'' ''alice'' = join_room demo_service ''room-1'' ''bob''"
    using t by (rule conjunct1)
  have b: "leave_room demo_service ''room-1'' ''alice'' = leave_room demo_service ''room-1'' ''bob''"
    using t by blast
  have c: "rooms demo_service ''room-1'' \<noteq> None"
    by (simp add: demo_room)
  have d: "map_option room_active_users
     (rooms (snd (join_room (snd (join_room demo_service ''room-1'' ''alice'')) ''room-1'' ''alice''))
        ''room-1'') = Some 2"
    using t[THEN conjunct2, THEN conjunct2, rule_format, OF demo_room, THEN conjunct1]
    by simp
  from a b c d show ?thesis by blast
qed

section \<open>Classifying a contour\<close>

lemma circularity_formula:
  "0 \<le> perimeter \<Longrightarrow> circularity area perimeter = 4 * pi * area / perimeter\<^sup>2"
  by (cases "perimeter = 0") (simp_all add: circularity_def power2_eq_square)

lemma circularity_nonpos:
  "perimeter \<le> 0 \<Longrightarrow> circularity area perimeter = 0"
  by (simp add: circularity_def)

lemma pi_ge_three: "3 \<le> pi"
  using sin_x_le_x[of "pi / 6"] by (simp add: sin_30)

lemma demo_circle_circularity: "8 / 10 < 4 * pi * 100 / (36::real)\<^sup>2"
proof -
  have "(8::real) / 10 < 4 * 3 * 100 / 36\<^sup>2" by (simp add: power2_eq_square)
  also have "\<dots> \<le> 4 * pi * 100 / 36\<^sup>2"
    using pi_ge_three by (simp add: power2_eq_square)
  finally show ?thesis .
qed

lemma demo_blob_circularity: "\<not> 8 / 10 < 4 * pi * 10 / (36::real)\<^sup>2"
proof -
  have "4 * pi * 10 / (36::real)\<^sup>2 < 4 * 4 * 10 / 36\<^sup>2"
    using pi_less_4 by (simp add: power2_eq_square)
  also have "\<dots> < 8 / 10" by (simp add: power2_eq_square)
  finally show ?thesis by simp
qed

text \<open>
  C3.  A contour of 3 vertices classifies as triangle with confidence 0.9.  A contour
  of 4 vertices (its bounding box of non-zero height, as OpenCV gives it) classifies as
  square with confidence 0.85 when the aspect ratio width / height of the bounding box
  lies in [0.8, 1.2], and as rectangle with confidence 0.8 otherwise.  A contour of
  more than 8 vertices whose circularity \<open>4 * pi * area / perimeter\<^sup>2\<close> exceeds 0.8
  classifies as circle, with the circularity as confidence.  Every other contour
  classifies as unknown with confidence 0.5.
\<close>

theorem classify_shape_spec:
  "(n_points c = 3 \<longrightarrow>
      classify_shape c = Inr \<lparr>shape_kind = ''triangle'', shape_confidence = 9 / 10,
        shape_vertices = 3, shape_area = contour_area c\<rparr>) \<and>
   (n_points c = 4 \<and> rect_h c \<noteq> 0 \<longrightarrow>
      classify_shape c =
        (if 8 / 10 \<le> real_of_int (rect_w c) / real_of_int (rect_h c) \<and>
            real_of_int (rect_w c) / real_of_int (rect_h c) \<le> 12 / 10
         then Inr \<lparr>shape_kind = ''square'', shape_confidence = 85 / 100,
                shape_vertices = 4, shape_area = contour_area c\<rparr>
         else Inr \<lparr>shape_kind = ''rectangle'', shape_confidence = 8 / 10,
                shape_vertices = 4, shape_area = contour_area c\<rparr>)) \<and>
   (8 < n_points c \<and> 0 \<le> arc_length c \<and>
      8 / 10 < 4 * pi * contour_area c / (arc_length c)\<^sup>2 \<longrightarrow>
      classify_shape c = Inr \<lparr>shape_kind = ''circle'',
        shape_confidence = 4 * pi * contour_area c / (arc_length c)\<^sup>2,
        shape_vertices = n_points c, shape_area = contour_area c\<rparr>) \<and>
   (n_points c \<noteq> 3 \<and> n_points c \<noteq> 4 \<and>
      \<not> (8 < n_points c \<and> 8 / 10 < 4 * pi * contour_area c / (arc_length c)\<^sup>2) \<longrightarrow>
      classify_shape c = Inr \<lparr>shape_kind = ''unknown'', shape_confidence = 5 / 10,
        shape_vertices = n_points c, shape_area = contour_area c\<rparr>)"
proof -
  have tri: "n_points c = 3 \<longrightarrow>
      classify_shape c = Inr \<lparr>shape_kind = ''triangle'', shape_confidence = 9 / 10,
        shape_vertices = 3, shape_area = contour_area c\<rparr>"
    by (simp add: classify_shape_def)
  have quad: "n_points c = 4 \<and> rect_h c \<noteq> 0 \<longrightarrow>
      classify_shape c =
        (if 8 / 10 \<le> real_of_int (rect_w c) / real_of_int (rect_h c) \<and>
            real_of_int (rect_w c) / real_of_int (rect_h c) \<le> 12 / 10
         then Inr \<lparr>shape_kind = ''square'', shape_confidence = 85 / 100,
                shape_vertices = 4, shape_area = contour_area c\<rparr>
         else Inr \<lparr>shape_kind = ''rectangle'', shape_confidence = 8 / 10,
                shape_vertices = 4, shape_area = contour_area c\<rparr>)"
    by (simp add: classify_shape_def Let_def)
  have circ: "8 < n_points c \<and> 0 \<le> arc_length c \<and>
      8 / 10 < 4 * pi * contour_area c / (arc_length c)\<^sup>2 \<longrightarrow>
      classify_shape c = Inr \<lparr>shape_kind = ''circle'',
        shape_confidence = 4 * pi * contour_area c / (arc_length c)\<^sup>2,
        shape_vertices = n_points c, shape_area = contour_area c\<rparr>"
    by (simp add: classify_shape_def Let_def circularity_formula)
  have unk: "n_points c \<noteq> 3 \<and> n_points c \<noteq> 4 \<and>
      \<not> (8 < n_points c \<and> 8 / 10 < 4 * pi * contour_area c / (arc_length c)\<^sup>2) \<longrightarrow>
      classify_shape c = Inr \<lparr>shape_kind = ''unknown'', shape_confidence = 5 / 10,
        shape_vertices = n_points c, shape_area = contour_area c\<rparr>"
  proof (cases "0 \<le> arc_length c")
    case True
    then show ?thesis
      by (auto simp: classify_shape_def Let_def circularity_formula unknown_shape_def)
  next
    case False
    then have "circularity (contour_area c) (arc_length c) = 0"
      by (simp add: circularity_nonpos)
    then show ?thesis
      by (auto simp: classify_shape_def Let_def unknown_shape_def)
  qed
  from tri quad circ unk show ?thesis by blast
qed

theorem classify_shape_spec_witness:
  "n_points demo_triangle = 3 \<and> n_points demo_square = 4 \<and> rect_h demo_square \<noteq> 0 \<and>
   n_points demo_rectangle = 4 \<and> rect_h demo_rectangle \<noteq> 0 \<and>
   8 < n_points demo_circle \<and> 0 \<le> arc_length demo_circle \<and>
   8 / 10 < 4 * pi * contour_area demo_circle / (arc_length demo_circle)\<^sup>2 \<and>
   classify_shape demo_triangle = Inr \<lparr>shape_kind = ''triangle'', shape_confidence = 9 / 10,
      shape_vertices = 3, shape_area = 50\<rparr> \<and>
   classify_shape demo_square = Inr \<lparr>shape_kind = ''square'', shape_confidence = 85 / 100,
      shape_vertices = 4, shape_area = 81\<rparr> \<and>
   classify_shape demo_rectangle = Inr \<lparr>shape_kind = ''rectangle'', shape_confidence = 8 / 10,
      shape_vertices = 4, shape_area = 171\<rparr> \<and>
   classify_shape demo_circle = Inr \<lparr>shape_kind = ''circle'',
      shape_confidence = 4 * pi * 100 / 36\<^sup>2, shape_vertices = 12, shape_area = 100\<rparr> \<and>
   classify_shape demo_blob = Inr \<lparr>shape_kind = ''unknown'', shape_confidence = 5 / 10,
      shape_vertices = 12, shape_area = 10\<rparr> \<and>
   classify_shape demo_pentagon = Inr \<lparr>shape_kind = ''unknown'', shape_confidence = 5 / 10,
      shape_vertices = 5, shape_area = 60\<rparr>"
proof -
  have a: "classify_shape demo_triangle = Inr \<lparr>shape_kind = ''triangle'',
      shape_confidence = 9 / 10, shape_vertices = 3, shape_area = 50\<rparr>"
    using classify_shape_spec[of demo_triangle] by (simp add: demo_triangle_def)
  have b: "classify_shape demo_square = Inr \<lparr>shape_kind = ''square'',
      shape_confidence = 85 / 100, shape_vertices = 4, shape_area = 81\<rparr>"
    using classify_shape_spec[of demo_square] by (simp add: demo_square_def)
  have c: "classify_shape demo_rectangle = Inr \<lparr>shape_kind = ''rectangle'',
      shape_confidence = 8 / 10, shape_vertices = 4, shape_area = 171\<rparr>"
    using classify_shape_spec[of demo_rectangle] by (simp add: demo_rectangle_def)
  have d: "classify_shape demo_circle = Inr \<lparr>shape_kind = ''circle'',
      shape_confidence = 4 * pi * 100 / 36\<^sup>2, shape_vertices = 12, shape_area = 100\<rparr>"
    using classify_shape_spec[of demo_circle] demo_circle_circularity
    by (simp add: demo_circle_def)
  have e: "classify_shape demo_blob = Inr \<lparr>shape_kind = ''unknown'',
      shape_confidence = 5 / 10, shape_vertices = 12, shape_area = 10\<rparr>"
    using classify_shape_spec[of demo_blob] demo_blob_circularity
    by (simp add: demo_blob_def)
  have f: "classify_shape demo_pentagon = Inr \<lparr>shape_kind = ''unknown'',
      shape_confidence = 5 / 10, shape_vertices = 5, shape_area = 60\<rparr>"
    using classify_shape_spec[of demo_pentagon] by (simp add: demo_pentagon_def)
  have h: "n_points demo_triangle = 3 \<and> n_points demo_square = 4 \<and>
      rect_h demo_square \<noteq> 0 \<and> n_points demo_rectangle = 4 \<and>
      rect_h demo_rectangle \<noteq> 0 \<and> 8 < n_points demo_circle \<and>
      0 \<le> arc_length demo_circle \<and>
      8 / 10 < 4 * pi * contour_area demo_circle / (arc_length demo_circle)\<^sup>2"
    using demo_circle_circularity
    by (simp add: demo_triangle_def demo_square_def demo_rectangle_def demo_circle_def)
  from h a b c d e f show ?thesis by blast
qed

section \<open>Filtering the classified shapes\<close>

text \<open>
  The service function keeps exactly the shapes whose confidence is at least its
  parameter \<open>confidence_threshold\<close>, in contour order, and reports their mean
  confidence, or 0 when none is kept.
\<close>

lemma classify_contours_filter:
  "(\<And>c. c \<in> set cs \<Longrightarrow> classify_shape c = Inr (f c)) \<Longrightarrow>
   classify_contours t cs acc = Inr (acc @ filter (\<lambda>i. t \<le> shape_confidence i) (map f cs))"
  by (induction cs arbitrary: acc) auto

lemma detect_shapes_service:
  assumes "find_contours img = Inr cs"
    and "\<And>c. c \<in> set cs \<Longrightarrow> classify_shape c = Inr (f c)"
  shows "detect_shapes find_contours t0 t1 img t =
     Inr \<lparr>sd_shapes = filter (\<lambda>i. t \<le> shape_confidence i) (map f cs),
          sd_confidence = mean_confidence (filter (\<lambda>i. t \<le> shape_confidence i) (map f cs)),
          sd_processing_time = t1 - t0\<rparr>"
  using assms(1) classify_contours_filter[of cs f t "[]", OF assms(2)]
  by (simp add: detect_shapes_def mean_confidence_def)

text \<open>
  The route handler, however, never passes the threshold of the request on: whatever
  the request says, the service filters with its default 0.7.
\<close>

lemma detect_shapes_route_ignores_threshold:
  "detect_shapes_route fc t0 t1 (request\<lparr>confidence_threshold := t\<rparr>)
     = detect_shapes_route fc t0 t1 request"
  by (simp add: detect_shapes_route_def)

text \<open>
  C6 fails on the route.  For the request with threshold 0.95 on an image whose only
  contour is a triangle (confidence 0.9), the route returns the triangle with aggregate
  confidence 0.9, although 0.9 is below the caller's threshold; the service called with
  the caller's threshold would retain nothing and report 0, as C6 says.
\<close>

theorem detect_shapes_route_threshold_dropped:
  "detect_shapes_route demo_find_contours 0 1 demo_request =
     Inr \<lparr>sd_shapes = [\<lparr>shape_kind = ''triangle'', shape_confidence = 9 / 10,
             shape_vertices = 3, shape_area = 50\<rparr>],
          sd_confidence = 9 / 10, sd_processing_time = 1\<rparr> \<and>
   \<not> confidence_threshold demo_request \<le> 9 / 10 \<and>
   detect_shapes demo_find_contours 0 1 (image_data demo_request)
       (confidence_threshold demo_request) =
     Inr \<lparr>sd_shapes = [], sd_confidence = 0, sd_processing_time = 1\<rparr>"
  by (simp add: detect_shapes_route_def detect_shapes_def demo_find_contours_def
      demo_request_def demo_triangle_def classify_shape_def default_confidence_threshold_def)

section \<open>Filtering the OCR fragments\<close>

lemma make_box_aligned:
  "columns_aligned data \<Longrightarrow> i < length (td_conf data) \<Longrightarrow>
   make_box data i (td_conf data ! i) = Inr (box_at data i)"
  by (simp add: make_box_def py_index_def columns_aligned_def box_at_def)

lemma collect_boxes_aligned:
  "columns_aligned data \<Longrightarrow> td_conf data = pre @ confs \<Longrightarrow>
   collect_boxes data (length pre) confs acc =
     Inr (acc @ map (box_at data)
            (filter (\<lambda>i. 60 < td_conf data ! i) [length pre ..< length (td_conf data)]))"
proof (induction confs arbitrary: pre acc)
  case Nil
  then show ?case by simp
next
  case (Cons conf rest)
  have split: "td_conf data = (pre @ [conf]) @ rest"
    using Cons.prems(2) by simp
  have len: "length pre < length (td_conf data)"
    using Cons.prems(2) by simp
  have nth: "td_conf data ! length pre = conf"
    using Cons.prems(2) by simp
  have upt: "[length pre ..< length (td_conf data)]
      = length pre # [Suc (length pre) ..< length (td_conf data)]"
    using len by (simp add: upt_conv_Cons)
  have ih: "collect_boxes data (Suc (length pre)) rest acc' =
     Inr (acc' @ map (box_at data)
            (filter (\<lambda>i. 60 < td_conf data ! i) [Suc (length pre) ..< length (td_conf data)]))"
    for acc'
    using Cons.IH[OF Cons.prems(1) split, of acc'] by simp
  show ?case
  proof (cases "60 < conf")
    case True
    have mb: "make_box data (length pre) conf = Inr (box_at data (length pre))"
      using make_box_aligned[OF Cons.prems(1) len] nth by simp
    show ?thesis
      using True nth by (simp add: mb ih upt)
  next
    case False
    then show ?thesis
      using nth by (simp add: ih upt)
  qed
qed

lemma box_at_confidence: "bb_confidence (box_at data i) = td_conf data ! i"
  by (simp add: box_at_def)

lemma box_at_mem:
  assumes "i < n"
  shows "box_at data i \<in> set (map (box_at data) (filter (\<lambda>j. 60 < td_conf data ! j) [0..<n]))
     \<longleftrightarrow> 60 < td_conf data ! i"
proof
  assume "box_at data i \<in> set (map (box_at data) (filter (\<lambda>j. 60 < td_conf data ! j) [0..<n]))"
  then obtain j where j: "60 < td_conf data ! j" "box_at data i = box_at data j"
    by auto
  from j(2) have "td_conf data ! i = td_conf data ! j"
    by (metis box_at_confidence)
  with j(1) show "60 < td_conf data ! i" by simp
next
  assume "60 < td_conf data ! i"
  with assms show "box_at data i \<in> set (map (box_at data) (filter (\<lambda>j. 60 < td_conf data ! j) [0..<n]))"
    by auto
qed

text \<open>
  C7.  When the OCR engine delivers its text and its per-fragment data (one entry per
  fragment in every column), \<open>perform_ocr\<close> succeeds and returns as bounding boxes the
  entries of exactly those fragments whose confidence is greater than 60, in fragment
  order: the entry of fragment \<open>i\<close> is in the list if and only if \<open>60 < conf i\<close>.  The
  aggregate confidence is the mean of the confidences of the returned entries, or 0
  when there are none.  The \<open>confidence_threshold\<close> of the request has no effect: the
  route gives the same answer for every value of it.
\<close>

theorem perform_ocr_spec:
  "(image_to_string engine img lang = Inr raw_text \<and> image_to_data engine img lang = Inr data \<and>
      columns_aligned data \<longrightarrow>
    (\<exists>res. perform_ocr engine ts te img lang = Inr res \<and>
       ocr_bounding_boxes res =
         map (box_at data) (filter (\<lambda>i. 60 < td_conf data ! i) [0..<length (td_conf data)]) \<and>
       (\<forall>i<length (td_conf data).
          box_at data i \<in> set (ocr_bounding_boxes res) \<longleftrightarrow> 60 < td_conf data ! i) \<and>
       ocr_confidence res =
         (if ocr_bounding_boxes res = [] then 0
          else real_of_int (sum_list (map bb_confidence (ocr_bounding_boxes res)))
                 / real (length (ocr_bounding_boxes res))))) \<and>
   perform_ocr_route engine ts te (request\<lparr>ocr_confidence_threshold := t\<rparr>)
     = perform_ocr_route engine ts te request"
proof -
  have route: "perform_ocr_route engine ts te (request\<lparr>ocr_confidence_threshold := t\<rparr>)
     = perform_ocr_route engine ts te request"
    by (simp add: perform_ocr_route_def)
  have svc: "\<exists>res. perform_ocr engine ts te img lang = Inr res \<and>
       ocr_bounding_boxes res =
         map (box_at data) (filter (\<lambda>i. 60 < td_conf data ! i) [0..<length (td_conf data)]) \<and>
       (\<forall>i<length (td_conf data).
          box_at data i \<in> set (ocr_bounding_boxes res) \<longleftrightarrow> 60 < td_conf data ! i) \<and>
       ocr_confidence res =
         (if ocr_bounding_boxes res = [] then 0
          else real_of_int (sum_list (map bb_confidence (ocr_bounding_boxes res)))
                 / real (length (ocr_bounding_boxes res)))"
    if s: "image_to_string engine img lang = Inr raw_text"
      and d: "image_to_data engine img lang = Inr data"
      and al: "columns_aligned data"
  proof -
    have cb: "collect_boxes data 0 (td_conf data) [] =
       Inr (map (box_at data) (filter (\<lambda>i. 60 < td_conf data ! i) [0..<length (td_conf data)]))"
      using collect_boxes_aligned[OF al, of "[]" "td_conf data" "[]"] by simp
    have res: "perform_ocr engine ts te img lang =
       Inr \<lparr>ocr_text = py_strip raw_text,
            ocr_confidence =
              (if map (box_at data)
                    (filter (\<lambda>i. 60 < td_conf data ! i) [0..<length (td_conf data)]) \<noteq> []
               then real_of_int (sum_list (map bb_confidence (map (box_at data)
                      (filter (\<lambda>i. 60 < td_conf data ! i) [0..<length (td_conf data)]))))
                    / real (length (map (box_at data)
                      (filter (\<lambda>i. 60 < td_conf data ! i) [0..<length (td_conf data)])))
               else 0),
            ocr_bounding_boxes = map (box_at data)
              (filter (\<lambda>i. 60 < td_conf data ! i) [0..<length (td_conf data)]),
            ocr_processing_time = te - ts\<rparr>"
      by (simp add: perform_ocr_def s d cb)
    have mem: "\<forall>i<length (td_conf data).
        box_at data i \<in> set (map (box_at data)
              (filter (\<lambda>i. 60 < td_conf data ! i) [0..<length (td_conf data)]))
          \<longleftrightarrow> 60 < td_conf data ! i"
      using box_at_mem by blast
    show ?thesis
      unfolding res using mem by simp
  qed
  from route svc show ?thesis by blast
qed

theorem perform_ocr_spec_witness:
  "columns_aligned demo_tess_data \<and>
   map_sum id ocr_bounding_boxes (perform_ocr demo_engine 0 1 ''text.png'' ''eng'') =
     Inr [\<lparr>bb_text = ''Hello'', bb_confidence = 96,
            bb_bbox = \<lparr>bbox_x = 10, bbox_y = 5, bbox_width = 40, bbox_height = 12\<rparr>\<rparr>,
          \<lparr>bb_text = ''again'', bb_confidence = 61,
            bb_bbox = \<lparr>bbox_x = 110, bbox_y = 5, bbox_width = 40, bbox_height = 12\<rparr>\<rparr>] \<and>
   map_sum id ocr_confidence (perform_ocr demo_engine 0 1 ''text.png'' ''eng'') = Inr (157 / 2) \<and>
   perform_ocr_route demo_engine 0 1 (demo_ocr_request\<lparr>ocr_confidence_threshold := 99 / 100\<rparr>)
     = perform_ocr_route demo_engine 0 1 demo_ocr_request"
proof -
  have al: "columns_aligned demo_tess_data"
    by (simp add: columns_aligned_def demo_tess_data_def)
  have s: "image_to_string demo_engine ''text.png'' ''eng'' = Inr ''Hello wor1d again\<newline>''"
    by (simp add: demo_engine_def)
  have d: "image_to_data demo_engine ''text.png'' ''eng'' = Inr demo_tess_data"
    by (simp add: demo_engine_def)
  note t = perform_ocr_spec[where engine = demo_engine and img = "''text.png''"
      and lang = "''eng''" and raw_text = "''Hello wor1d again\<newline>''" and data = demo_tess_data
      and ts = 0 and te = 1 and request = demo_ocr_request and t = "99 / 100"]
  from t s d al obtain res where
    res: "perform_ocr demo_engine 0 1 ''text.png'' ''eng'' = Inr res"
    and boxes: "ocr_bounding_boxes res =
         map (box_at demo_tess_data)
           (filter (\<lambda>i. 60 < td_conf demo_tess_data ! i) [0..<length (td_conf demo_tess_data)])"
    and conf: "ocr_confidence res =
         (if ocr_bounding_boxes res = [] then 0
          else real_of_int (sum_list (map bb_confidence (ocr_bounding_boxes res)))
                 / real (length (ocr_bounding_boxes res)))"
    by blast
  have upt4: "[0..<4] = [0, 1, 2, 3]" by (simp add: upt_rec)
  have b: "ocr_bounding_boxes res =
     [\<lparr>bb_text = ''Hello'', bb_confidence = 96,
            bb_bbox = \<lparr>bbox_x = 10, bbox_y = 5, bbox_width = 40, bbox_height = 12\<rparr>\<rparr>,
          \<lparr>bb_text = ''again'', bb_confidence = 61,
            bb_bbox = \<lparr>bbox_x = 110, bbox_y = 5, bbox_width = 40, bbox_height = 12\<rparr>\<rparr>]"
    unfolding boxes by (simp add: demo_tess_data_def box_at_def upt4)
  have c: "ocr_confidence res = 157 / 2"
    unfolding conf b by simp
  have r: "perform_ocr_route demo_engine 0 1 (demo_ocr_request\<lparr>ocr_confidence_threshold := 99 / 100\<rparr>)
     = perform_ocr_route demo_engine 0 1 demo_ocr_request"
    using t by (rule conjunct2)
  show ?thesis using al res b c r by simp
qed

end
